theory Spec2Isabelle
  imports Main
begin

section \<open>Pondside telemetry: the model\<close>

text \<open>
  The module \<^verbatim>\<open>pondside/telemetry.py\<close> owns one piece of state, the module-level flag
  \<^verbatim>\<open>_initialized\<close>, reads one environment variable, and otherwise only calls into
  OpenTelemetry and Python's \<^verbatim>\<open>logging\<close>. The objects those libraries build are modelled
  as terms named after the constructor call that builds them, with the arguments the
  source passes. Every call the module makes into a library is appended to a log in the
  order the source makes it, so that "what \<^verbatim>\<open>init\<close> did" is the flag together with the
  calls it added to the log.
\<close>

subsection \<open>Library objects, as the source constructs them\<close>

text \<open>The key of the attribute dictionary given to \<^verbatim>\<open>Resource.create\<close>.\<close>

datatype attr_key = SERVICE_NAME

text \<open>\<^verbatim>\<open>Resource.create({SERVICE_NAME: service_name})\<close>: the dictionary as written.\<close>

datatype resource = Resource_create "(attr_key \<times> string) list"

text \<open>\<^verbatim>\<open>OTLPSpanExporter(endpoint=...)\<close> and \<^verbatim>\<open>OTLPLogExporter(endpoint=...)\<close>.\<close>

datatype span_exporter = OTLPSpanExporter string

datatype log_exporter = OTLPLogExporter string

text \<open>The keyword arguments of \<^verbatim>\<open>SpanLimits(...)\<close>; Python integers.\<close>

record span_limits =
  max_attributes :: int
  max_attribute_length :: int
  max_events :: int
  max_links :: int
  max_event_attributes :: int
  max_link_attributes :: int

text \<open>\<^verbatim>\<open>TracerProvider(resource=..., span_limits=...)\<close>, \<^verbatim>\<open>LoggerProvider(resource=...)\<close>.\<close>

datatype tracer_provider = TracerProvider (tp_resource: resource) (tp_span_limits: span_limits)

datatype logger_provider = LoggerProvider (lp_resource: resource)

datatype span_processor = BatchSpanProcessor span_exporter

datatype log_record_processor = BatchLogRecordProcessor log_exporter

text \<open>The named levels of Python's \<^verbatim>\<open>logging\<close>; the source uses \<^verbatim>\<open>logging.DEBUG\<close>.\<close>

datatype log_level = NOTSET | DEBUG | INFO | WARNING | ERROR | CRITICAL

text \<open>\<^verbatim>\<open>LoggingHandler(level=..., logger_provider=...)\<close>.\<close>

datatype logging_handler = LoggingHandler log_level logger_provider

text \<open>
  \<^verbatim>\<open>logging.getLogger(name)\<close>; the source calls it with no argument, which names the
  root logger.
\<close>

datatype logger = getLogger "string option"

subsection \<open>Calls into the libraries\<close>

text \<open>
  One constructor for each call expression of the source, carrying the object built (for
  a constructor call) or the receiver and arguments (for a method or function call).
\<close>

datatype ext_call =
    Call_Resource_create resource
  | Call_OTLPSpanExporter span_exporter
  | Call_SpanLimits span_limits
  | Call_TracerProvider tracer_provider
  | Call_BatchSpanProcessor span_processor
  | Call_add_span_processor tracer_provider span_processor
  | Call_set_tracer_provider tracer_provider
  | Call_OTLPLogExporter log_exporter
  | Call_LoggerProvider logger_provider
  | Call_BatchLogRecordProcessor log_record_processor
  | Call_add_log_record_processor logger_provider log_record_processor
  | Call_set_logger_provider logger_provider
  | Call_LoggingHandler logging_handler
  | Call_getLogger logger
  | Call_addHandler logger logging_handler
  | Call_trace_get_tracer string

text \<open>An exception that leaves a library call; the source catches none.\<close>

datatype exn = Raised ext_call

subsection \<open>The process state\<close>

record world =
  initialized :: bool
  environ :: "string \<rightharpoonup> string"
  calls :: "ext_call list"

text \<open>The calls added to the log between two states.\<close>

definition new_calls :: "world \<Rightarrow> world \<Rightarrow> ext_call list" where
  "new_calls w w' = drop (length (calls w)) (calls w')"

text \<open>
  Which provider the process ends up with is decided by OpenTelemetry, not by this
  module: its global registries are set once. The first provider passed to
  \<^verbatim>\<open>set_tracer_provider\<close> (to \<^verbatim>\<open>set_logger_provider\<close>) is the registered one, and a
  later call is refused with a warning and changes nothing. Read off a log of calls that
  returned, the registered provider is therefore the argument of the first such call.
\<close>

fun registered_tracer_provider :: "ext_call list \<Rightarrow> tracer_provider option" where
  "registered_tracer_provider [] = None"
| "registered_tracer_provider (Call_set_tracer_provider p # cs) = Some p"
| "registered_tracer_provider (c # cs) = registered_tracer_provider cs"

fun registered_logger_provider :: "ext_call list \<Rightarrow> logger_provider option" where
  "registered_logger_provider [] = None"
| "registered_logger_provider (Call_set_logger_provider p # cs) = Some p"
| "registered_logger_provider (c # cs) = registered_logger_provider cs"

subsection \<open>Sequencing library calls\<close>

text \<open>
  The statements of \<^verbatim>\<open>init\<close> after the endpoint test are a straight line of library
  calls. Each call is logged when it is made; which calls raise is the library's business
  and is the parameter \<open>raises\<close>. The first call that raises ends the sequence, and the
  exception propagates with the state as it is at that point.
\<close>

fun call_all :: "(ext_call \<Rightarrow> bool) \<Rightarrow> ext_call list \<Rightarrow> world \<Rightarrow> exn option \<times> world" where
  "call_all raises [] w = (None, w)"
| "call_all raises (c # cs) w =
     (let w' = w\<lparr>calls := calls w @ [c]\<rparr>
      in if raises c then (Some (Raised c), w') else call_all raises cs w')"

subsection \<open>\<^verbatim>\<open>init\<close>\<close>

text \<open>
  The statements of \<^verbatim>\<open>init\<close> after the endpoint test, as the library calls they make,
  in the order Python evaluates them: an argument before the call it is passed to, the
  receiver \<^verbatim>\<open>logging.getLogger()\<close> before \<^verbatim>\<open>addHandler\<close>. The local variables keep
  their names.
\<close>

definition init_calls :: "string \<Rightarrow> string \<Rightarrow> ext_call list" where
  "init_calls service_name endpoint =
     (let resource = Resource_create [(SERVICE_NAME, service_name)];
          trace_exporter = OTLPSpanExporter (endpoint @ ''/v1/traces'');
          span_limits = \<lparr>max_attributes = 100000,
                          max_attribute_length = 100000,
                          max_events = 10000,
                          max_links = 1000,
                          max_event_attributes = 10000,
                          max_link_attributes = 1000\<rparr>;
          tracer_provider = TracerProvider resource span_limits;
          log_exporter = OTLPLogExporter (endpoint @ ''/v1/logs'');
          logger_provider = LoggerProvider resource;
          handler = LoggingHandler DEBUG logger_provider
      in [Call_Resource_create resource,
          Call_OTLPSpanExporter trace_exporter,
          Call_SpanLimits span_limits,
          Call_TracerProvider tracer_provider,
          Call_BatchSpanProcessor (BatchSpanProcessor trace_exporter),
          Call_add_span_processor tracer_provider (BatchSpanProcessor trace_exporter),
          Call_set_tracer_provider tracer_provider,
          Call_OTLPLogExporter log_exporter,
          Call_LoggerProvider logger_provider,
          Call_BatchLogRecordProcessor (BatchLogRecordProcessor log_exporter),
          Call_add_log_record_processor logger_provider (BatchLogRecordProcessor log_exporter),
          Call_set_logger_provider logger_provider,
          Call_LoggingHandler handler,
          Call_getLogger (getLogger None),
          Call_addHandler (getLogger None) handler])"

text \<open>
  \<^verbatim>\<open>os.environ.get("OTEL_EXPORTER_OTLP_ENDPOINT")\<close> is \<open>None\<close> or a string, and
  \<^verbatim>\<open>not endpoint\<close> holds for \<open>None\<close> and for the empty string. The flag is assigned
  on the disabled path before the return, and on the configured path after the last
  library call. The result is the exception that propagated, if any, and the state left
  behind.
\<close>

definition init :: "(ext_call \<Rightarrow> bool) \<Rightarrow> string \<Rightarrow> world \<Rightarrow> exn option \<times> world" where
  "init raises service_name w =
     (if initialized w then (None, w)
      else case environ w ''OTEL_EXPORTER_OTLP_ENDPOINT'' of
        None \<Rightarrow> (None, w\<lparr>initialized := True\<rparr>)
      | Some endpoint \<Rightarrow>
          if endpoint = [] then (None, w\<lparr>initialized := True\<rparr>)
          else case call_all raises (init_calls service_name endpoint) w of
                 (Some e, w') \<Rightarrow> (Some e, w')
               | (None, w') \<Rightarrow> (None, w'\<lparr>initialized := True\<rparr>))"

subsection \<open>\<^verbatim>\<open>get_tracer\<close>\<close>

text \<open>
  \<^verbatim>\<open>def get_tracer(name="pondside"): return trace.get_tracer(name)\<close>. The library's
  registry lookup is the parameter \<open>trace_get_tracer\<close>; its result type is left open, so
  whatever the library answers (a tracer, or an exception of its own) is what the caller
  gets. An omitted argument is \<open>None\<close>.
\<close>

definition get_tracer :: "(string \<Rightarrow> 'r) \<Rightarrow> string option \<Rightarrow> world \<Rightarrow> 'r \<times> world" where
  "get_tracer trace_get_tracer name w =
     (let n = (case name of None \<Rightarrow> ''pondside'' | Some s \<Rightarrow> s)
      in (trace_get_tracer n, w\<lparr>calls := calls w @ [Call_trace_get_tracer n]\<rparr>))"

subsection \<open>Sequences of calls to the module\<close>

text \<open>
  A client calls the two exported functions in any order. Each \<open>Init\<close> carries the
  library's failure behaviour at that call; a client may catch an exception and go on, so
  the run continues from the state the call left.
\<close>

datatype op = Init "ext_call \<Rightarrow> bool" string | Get_tracer "string option"

fun step :: "(string \<Rightarrow> 'r) \<Rightarrow> op \<Rightarrow> world \<Rightarrow> world" where
  "step lookup (Init raises service_name) w = snd (init raises service_name w)"
| "step lookup (Get_tracer name) w = snd (get_tracer lookup name w)"

fun exec :: "(string \<Rightarrow> 'r) \<Rightarrow> op list \<Rightarrow> world \<Rightarrow> world" where
  "exec lookup [] w = w"
| "exec lookup (x # xs) w = exec lookup xs (step lookup x w)"

section \<open>Properties\<close>

subsection \<open>Facts about the call sequence\<close>

lemma call_all_initialized: "initialized (snd (call_all raises cs w)) = initialized w"
  by (induction cs arbitrary: w) (simp_all add: Let_def)

lemma call_all_environ: "environ (snd (call_all raises cs w)) = environ w"
  by (induction cs arbitrary: w) (simp_all add: Let_def)

lemma call_all_ok:
  "\<forall>c \<in> set cs. \<not> raises c \<Longrightarrow> call_all raises cs w = (None, w\<lparr>calls := calls w @ cs\<rparr>)"
  by (induction cs arbitrary: w) (simp_all add: Let_def)

lemma call_all_None:
  "fst (call_all raises cs w) = None \<Longrightarrow> \<forall>c \<in> set cs. \<not> raises c"
  by (induction cs arbitrary: w) (auto simp: Let_def split: if_splits)

lemma call_all_prefix:
  "\<exists>n. calls (snd (call_all raises cs w)) = calls w @ take n cs"
proof (induction cs arbitrary: w)
  case Nil
  show ?case by simp
next
  case (Cons c cs)
  show ?case
  proof (cases "raises c")
    case True
    have "calls (snd (call_all raises (c # cs) w)) = calls w @ take 1 (c # cs)"
      using True by (simp add: Let_def)
    then show ?thesis by blast
  next
    case False
    from Cons.IH [of "w\<lparr>calls := calls w @ [c]\<rparr>"] obtain n where
      "calls (snd (call_all raises cs (w\<lparr>calls := calls w @ [c]\<rparr>))) = calls w @ [c] @ take n cs"
      by auto
    then have "calls (snd (call_all raises (c # cs) w)) = calls w @ take (Suc n) (c # cs)"
      using False by (simp add: Let_def)
    then show ?thesis by blast
  qed
qed

lemma init_initialized_noop: "initialized w \<Longrightarrow> init raises service_name w = (None, w)"
  by (simp add: init_def)

lemma init_disabled:
  "environ w ''OTEL_EXPORTER_OTLP_ENDPOINT'' = None \<or>
   environ w ''OTEL_EXPORTER_OTLP_ENDPOINT'' = Some [] \<Longrightarrow>
   init raises service_name w = (None, w\<lparr>initialized := True\<rparr>)"
  by (auto simp: init_def)

lemma init_configured:
  assumes "\<not> initialized w"
    and "environ w ''OTEL_EXPORTER_OTLP_ENDPOINT'' = Some endpoint"
    and "endpoint \<noteq> []"
  shows "init raises service_name w =
     (case call_all raises (init_calls service_name endpoint) w of
        (Some e, w') \<Rightarrow> (Some e, w')
      | (None, w') \<Rightarrow> (None, w'\<lparr>initialized := True\<rparr>))"
  using assms by (simp add: init_def)

lemma init_configured_ok:
  assumes "\<not> initialized w"
    and "environ w ''OTEL_EXPORTER_OTLP_ENDPOINT'' = Some endpoint"
    and "endpoint \<noteq> []"
    and "\<forall>c \<in> set (init_calls service_name endpoint). \<not> raises c"
  shows "init raises service_name w =
     (None, w\<lparr>calls := calls w @ init_calls service_name endpoint, initialized := True\<rparr>)"
  using assms(4) by (simp add: init_configured [OF assms(1-3)] call_all_ok)

lemma init_configured_returns:
  assumes "\<not> initialized w"
    and "environ w ''OTEL_EXPORTER_OTLP_ENDPOINT'' = Some endpoint"
    and "endpoint \<noteq> []"
    and "init raises service_name w = (None, w')"
  shows "w' = w\<lparr>calls := calls w @ init_calls service_name endpoint, initialized := True\<rparr>"
proof -
  have "fst (call_all raises (init_calls service_name endpoint) w) = None"
    using assms(4) unfolding init_configured [OF assms(1-3)]
    by (auto split: prod.splits option.splits)
  then have "\<forall>c \<in> set (init_calls service_name endpoint). \<not> raises c"
    by (rule call_all_None)
  from init_configured_ok [OF assms(1-3) this] assms(4) show ?thesis
    by simp
qed

lemma init_configured_new_calls:
  assumes "\<not> initialized w"
    and "environ w ''OTEL_EXPORTER_OTLP_ENDPOINT'' = Some endpoint"
    and "endpoint \<noteq> []"
  shows "\<exists>n. new_calls w (snd (init raises service_name w)) =
           take n (init_calls service_name endpoint)"
proof -
  obtain n where n: "calls (snd (call_all raises (init_calls service_name endpoint) w)) =
      calls w @ take n (init_calls service_name endpoint)"
    using call_all_prefix by blast
  have "calls (snd (init raises service_name w)) =
      calls (snd (call_all raises (init_calls service_name endpoint) w))"
    unfolding init_configured [OF assms]
    by (auto split: prod.splits option.splits)
  with n show ?thesis
    by (auto simp: new_calls_def)
qed

lemma init_returns_initialized:
  "init raises service_name w = (None, w') \<Longrightarrow> initialized w'"
  by (auto simp: init_def split: if_splits option.splits prod.splits)

lemma init_keeps_initialized:
  "initialized w \<Longrightarrow> initialized (snd (init raises service_name w))"
  by (simp add: init_initialized_noop)

lemma get_tracer_initialized:
  "initialized (snd (get_tracer lookup name w)) = initialized w"
  by (simp add: get_tracer_def Let_def)

lemma step_keeps_initialized: "initialized w \<Longrightarrow> initialized (step lookup x w)"
  by (cases x) (simp_all add: init_keeps_initialized get_tracer_initialized)

lemma exec_keeps_initialized: "initialized w \<Longrightarrow> initialized (exec lookup xs w)"
  by (induction xs arbitrary: w) (simp_all add: step_keeps_initialized)

lemma init_returns_calls:
  assumes "\<not> initialized w"
    and "environ w ''OTEL_EXPORTER_OTLP_ENDPOINT'' = Some endpoint"
    and "endpoint \<noteq> []"
    and "fst (init raises service_name w) = None"
  shows "new_calls w (snd (init raises service_name w)) = init_calls service_name endpoint"
proof -
  obtain w' where "init raises service_name w = (None, w')"
    using assms(4) by (cases "init raises service_name w") simp
  from init_configured_returns [OF assms(1-3) this] this show ?thesis
    by (simp add: new_calls_def)
qed

lemma in_new_calls:
  assumes "\<not> initialized w"
    and "environ w ''OTEL_EXPORTER_OTLP_ENDPOINT'' = Some endpoint"
    and "endpoint \<noteq> []"
    and "c \<in> set (new_calls w (snd (init raises service_name w)))"
  shows "c \<in> set (init_calls service_name endpoint)"
proof -
  from init_configured_new_calls [OF assms(1-3)] obtain n where
    "new_calls w (snd (init raises service_name w)) = take n (init_calls service_name endpoint)"
    by blast
  with assms(4) show ?thesis
    by (auto dest: in_set_takeD)
qed


lemma call_all_nonempty:
  assumes "cs \<noteq> []"
  shows "new_calls w (snd (call_all raises cs w)) \<noteq> []"
proof -
  from assms obtain c cs' where cs: "cs = c # cs'"
    by (cases cs) auto
  obtain n where "calls (snd (call_all raises cs' (w\<lparr>calls := calls w @ [c]\<rparr>))) =
      calls (w\<lparr>calls := calls w @ [c]\<rparr>) @ take n cs'"
    using call_all_prefix by blast
  then have "calls (snd (call_all raises cs w)) = calls w @ [c] \<or>
      calls (snd (call_all raises cs w)) = calls w @ [c] @ take n cs'"
    unfolding cs by (simp add: Let_def)
  then show ?thesis
    by (auto simp: new_calls_def)
qed

lemma init_configured_not_noop:
  assumes "\<not> initialized w"
    and "environ w ''OTEL_EXPORTER_OTLP_ENDPOINT'' = Some endpoint"
    and "endpoint \<noteq> []"
  shows "new_calls w (snd (init raises service_name w)) \<noteq> []"
proof -
  have "calls (snd (init raises service_name w)) =
      calls (snd (call_all raises (init_calls service_name endpoint) w))"
    unfolding init_configured [OF assms]
    by (auto split: prod.splits option.splits)
  then have "new_calls w (snd (init raises service_name w)) =
      new_calls w (snd (call_all raises (init_calls service_name endpoint) w))"
    by (simp add: new_calls_def)
  moreover have "init_calls service_name endpoint \<noteq> []"
    by (simp add: init_calls_def Let_def)
  ultimately show ?thesis
    by (simp add: call_all_nonempty)
qed

subsection \<open>Idempotence of \<^verbatim>\<open>init\<close>\<close>

text \<open>
  C1. Once a call to \<^verbatim>\<open>init\<close> has returned, whatever the environment was, every later
  call to \<^verbatim>\<open>init\<close> is a no-op: after any further calls to the module and any change of
  the environment, with any service name and any library behaviour, it returns without
  an exception and leaves the whole state as it found it: the flag, the environment and
  the log of library calls, so no provider is registered, no exporter constructed and no
  handler attached.
\<close>

theorem init_idempotent:
  assumes "init raises1 service_name1 w = (None, w1)"
    and "w2 = (exec lookup ops w1)\<lparr>environ := env\<rparr>"
  shows "init raises2 service_name2 w2 = (None, w2) \<and>
         new_calls w2 (snd (init raises2 service_name2 w2)) = []"
proof -
  have "initialized w1"
    using assms(1) by (rule init_returns_initialized)
  then have "initialized (exec lookup ops w1)"
    by (rule exec_keeps_initialized)
  then have "initialized w2"
    using assms(2) by simp
  then have "init raises2 service_name2 w2 = (None, w2)"
    by (rule init_initialized_noop)
  then show ?thesis
    by (simp add: new_calls_def)
qed

theorem init_idempotent_witness:
  "init (\<lambda>c. False) ''svc''
     \<lparr>initialized = False,
      environ = [''OTEL_EXPORTER_OTLP_ENDPOINT'' \<mapsto> ''http://collector:4318''],
      calls = []\<rparr> =
   (None,
    \<lparr>initialized = True,
     environ = [''OTEL_EXPORTER_OTLP_ENDPOINT'' \<mapsto> ''http://collector:4318''],
     calls = init_calls ''svc'' ''http://collector:4318''\<rparr>) \<and>
   init (\<lambda>c. True) ''other''
     \<lparr>initialized = True,
      environ = [''OTEL_EXPORTER_OTLP_ENDPOINT'' \<mapsto> ''http://elsewhere:4318''],
      calls = init_calls ''svc'' ''http://collector:4318''\<rparr> =
   (None,
    \<lparr>initialized = True,
     environ = [''OTEL_EXPORTER_OTLP_ENDPOINT'' \<mapsto> ''http://elsewhere:4318''],
     calls = init_calls ''svc'' ''http://collector:4318''\<rparr>)"
proof -
  let ?w = "\<lparr>initialized = False,
      environ = [''OTEL_EXPORTER_OTLP_ENDPOINT'' \<mapsto> ''http://collector:4318''],
      calls = []\<rparr>"
  let ?w1 = "\<lparr>initialized = True,
     environ = [''OTEL_EXPORTER_OTLP_ENDPOINT'' \<mapsto> ''http://collector:4318''],
     calls = init_calls ''svc'' ''http://collector:4318''\<rparr>"
  have first: "init (\<lambda>c. False) ''svc'' ?w = (None, ?w1)"
    by (simp add: init_def call_all_ok)
  have "?w1\<lparr>environ := [''OTEL_EXPORTER_OTLP_ENDPOINT'' \<mapsto> ''http://elsewhere:4318'']\<rparr> =
      (exec (\<lambda>n. n) [] ?w1)\<lparr>environ := [''OTEL_EXPORTER_OTLP_ENDPOINT'' \<mapsto> ''http://elsewhere:4318'']\<rparr>"
    by simp
  from init_idempotent [OF first this, of "\<lambda>c. True" "''other''"] first
  show ?thesis by simp
qed

subsection \<open>No endpoint, no telemetry\<close>

text \<open>
  C2. When \<^verbatim>\<open>OTEL_EXPORTER_OTLP_ENDPOINT\<close> is absent from the environment,
  \<^verbatim>\<open>init\<close> returns without an exception, the flag is set afterwards, and nothing else
  has changed: no library call was made (no exporter or provider constructed, nothing
  registered, no handler added to the root logger) and the environment is as it was.
\<close>

theorem init_endpoint_absent:
  assumes "environ w ''OTEL_EXPORTER_OTLP_ENDPOINT'' = None"
  shows "init raises service_name w = (None, w\<lparr>initialized := True\<rparr>) \<and>
         initialized (snd (init raises service_name w)) \<and>
         new_calls w (snd (init raises service_name w)) = []"
  using assms by (simp add: init_disabled new_calls_def)

theorem init_endpoint_absent_witness:
  "init (\<lambda>c. True) ''svc'' \<lparr>initialized = False, environ = Map.empty, calls = []\<rparr> =
     (None, \<lparr>initialized = True, environ = Map.empty, calls = []\<rparr>)"
  using init_endpoint_absent
    [of "\<lparr>initialized = False, environ = Map.empty, calls = []\<rparr>" "\<lambda>c. True" "''svc''"]
  by simp

subsection \<open>The flag is never reset\<close>

text \<open>
  C3. Once \<^verbatim>\<open>_initialized\<close> is true it stays true: no sequence of calls to
  \<^verbatim>\<open>init\<close> and \<^verbatim>\<open>get_tracer\<close>, whatever their arguments and whatever the libraries do,
  leads to a state where it is false.
\<close>

theorem initialized_never_reset:
  "initialized w \<Longrightarrow> initialized (exec lookup ops w)"
  by (rule exec_keeps_initialized)

theorem initialized_never_reset_witness:
  "initialized
     (exec (\<lambda>n. n)
        [Get_tracer None, Init (\<lambda>c. True) ''svc'', Get_tracer (Some ''t''),
         Init (\<lambda>c. False) ''svc'']
        \<lparr>initialized = True,
         environ = [''OTEL_EXPORTER_OTLP_ENDPOINT'' \<mapsto> ''http://collector:4318''],
         calls = []\<rparr>)"
  using initialized_never_reset
    [of "\<lparr>initialized = True,
         environ = [''OTEL_EXPORTER_OTLP_ENDPOINT'' \<mapsto> ''http://collector:4318''],
         calls = []\<rparr>" "\<lambda>n. n"
        "[Get_tracer None, Init (\<lambda>c. True) ''svc'', Get_tracer (Some ''t''),
         Init (\<lambda>c. False) ''svc'']"]
  by simp

subsection \<open>The exporters' endpoints\<close>

text \<open>
  C4. On a first call to \<^verbatim>\<open>init\<close> that reads a non-empty endpoint \<open>E\<close> from the
  environment, every trace exporter the call constructs is given the URL \<open>E\<close> followed
  by \<^verbatim>\<open>/v1/traces\<close>, and every log exporter the URL \<open>E\<close> followed by \<^verbatim>\<open>/v1/logs\<close>,
  whatever the service name is and whichever library call raises; and when the call
  returns it has constructed exactly one exporter of each kind.
\<close>

theorem exporter_endpoints:
  assumes "\<not> initialized w"
    and "environ w ''OTEL_EXPORTER_OTLP_ENDPOINT'' = Some endpoint"
    and "endpoint \<noteq> []"
  shows "(\<forall>x. Call_OTLPSpanExporter x \<in> set (new_calls w (snd (init raises service_name w))) \<longrightarrow>
            x = OTLPSpanExporter (endpoint @ ''/v1/traces'')) \<and>
         (\<forall>x. Call_OTLPLogExporter x \<in> set (new_calls w (snd (init raises service_name w))) \<longrightarrow>
            x = OTLPLogExporter (endpoint @ ''/v1/logs'')) \<and>
         (fst (init raises service_name w) = None \<longrightarrow>
            [x. Call_OTLPSpanExporter x \<leftarrow> new_calls w (snd (init raises service_name w))] =
              [OTLPSpanExporter (endpoint @ ''/v1/traces'')] \<and>
            [x. Call_OTLPLogExporter x \<leftarrow> new_calls w (snd (init raises service_name w))] =
              [OTLPLogExporter (endpoint @ ''/v1/logs'')])"
proof (intro conjI allI impI)
  fix x
  assume "Call_OTLPSpanExporter x \<in> set (new_calls w (snd (init raises service_name w)))"
  then have "Call_OTLPSpanExporter x \<in> set (init_calls service_name endpoint)"
    by (rule in_new_calls [OF assms])
  then show "x = OTLPSpanExporter (endpoint @ ''/v1/traces'')"
    by (simp add: init_calls_def Let_def)
next
  fix x
  assume "Call_OTLPLogExporter x \<in> set (new_calls w (snd (init raises service_name w)))"
  then have "Call_OTLPLogExporter x \<in> set (init_calls service_name endpoint)"
    by (rule in_new_calls [OF assms])
  then show "x = OTLPLogExporter (endpoint @ ''/v1/logs'')"
    by (simp add: init_calls_def Let_def)
next
  assume "fst (init raises service_name w) = None"
  then have *: "new_calls w (snd (init raises service_name w)) = init_calls service_name endpoint"
    by (rule init_returns_calls [OF assms])
  show "[x. Call_OTLPSpanExporter x \<leftarrow> new_calls w (snd (init raises service_name w))] =
              [OTLPSpanExporter (endpoint @ ''/v1/traces'')]"
    unfolding * by (simp add: init_calls_def Let_def)
  show "[x. Call_OTLPLogExporter x \<leftarrow> new_calls w (snd (init raises service_name w))] =
              [OTLPLogExporter (endpoint @ ''/v1/logs'')]"
    unfolding * by (simp add: init_calls_def Let_def)
qed

theorem exporter_endpoints_witness:
  "[x. Call_OTLPSpanExporter x \<leftarrow>
      new_calls \<lparr>initialized = False,
         environ = [''OTEL_EXPORTER_OTLP_ENDPOINT'' \<mapsto> ''http://collector:4318''],
         calls = []\<rparr>
        (snd (init (\<lambda>c. False) ''svc'' \<lparr>initialized = False,
         environ = [''OTEL_EXPORTER_OTLP_ENDPOINT'' \<mapsto> ''http://collector:4318''],
         calls = []\<rparr>))] = [OTLPSpanExporter ''http://collector:4318/v1/traces''] \<and>
   [x. Call_OTLPLogExporter x \<leftarrow>
      new_calls \<lparr>initialized = False,
         environ = [''OTEL_EXPORTER_OTLP_ENDPOINT'' \<mapsto> ''http://collector:4318''],
         calls = []\<rparr>
        (snd (init (\<lambda>c. False) ''svc'' \<lparr>initialized = False,
         environ = [''OTEL_EXPORTER_OTLP_ENDPOINT'' \<mapsto> ''http://collector:4318''],
         calls = []\<rparr>))] = [OTLPLogExporter ''http://collector:4318/v1/logs'']"
proof -
  let ?w = "\<lparr>initialized = False,
         environ = [''OTEL_EXPORTER_OTLP_ENDPOINT'' \<mapsto> ''http://collector:4318''],
         calls = []\<rparr>"
  have ret: "fst (init (\<lambda>c. False) ''svc'' ?w) = None"
    by (simp add: init_def call_all_ok)
  have "\<not> initialized ?w" "environ ?w ''OTEL_EXPORTER_OTLP_ENDPOINT'' = Some ''http://collector:4318''"
    "''http://collector:4318'' \<noteq> []"
    by simp_all
  from exporter_endpoints [OF this, of "\<lambda>c. False" "''svc''"] ret
  show ?thesis by simp
qed


subsection \<open>The span limits\<close>

text \<open>
  C5. On the configured path the span limits are the six constants of the source:
  \<^verbatim>\<open>max_attributes\<close> and \<^verbatim>\<open>max_attribute_length\<close> 100000, \<^verbatim>\<open>max_events\<close> and
  \<^verbatim>\<open>max_event_attributes\<close> 10000, \<^verbatim>\<open>max_links\<close> and \<^verbatim>\<open>max_link_attributes\<close> 1000.
  Every \<^verbatim>\<open>SpanLimits\<close> built, and the limits of every tracer provider built or
  registered, are these values, for every service name, endpoint, earlier state and
  library behaviour; a call that returns has built the limits once and registered one
  tracer provider, with these limits.
\<close>

theorem span_limits_fixed:
  assumes "\<not> initialized w"
    and "environ w ''OTEL_EXPORTER_OTLP_ENDPOINT'' = Some endpoint"
    and "endpoint \<noteq> []"
  shows "(\<forall>l. Call_SpanLimits l \<in> set (new_calls w (snd (init raises service_name w))) \<longrightarrow>
            l = \<lparr>max_attributes = 100000, max_attribute_length = 100000,
                 max_events = 10000, max_links = 1000,
                 max_event_attributes = 10000, max_link_attributes = 1000\<rparr>) \<and>
         (\<forall>p. Call_TracerProvider p \<in> set (new_calls w (snd (init raises service_name w))) \<or>
              Call_set_tracer_provider p \<in> set (new_calls w (snd (init raises service_name w))) \<longrightarrow>
            tp_span_limits p =
               \<lparr>max_attributes = 100000, max_attribute_length = 100000,
                max_events = 10000, max_links = 1000,
                max_event_attributes = 10000, max_link_attributes = 1000\<rparr>) \<and>
         (fst (init raises service_name w) = None \<longrightarrow>
            [l. Call_SpanLimits l \<leftarrow> new_calls w (snd (init raises service_name w))] =
              [\<lparr>max_attributes = 100000, max_attribute_length = 100000,
                max_events = 10000, max_links = 1000,
                max_event_attributes = 10000, max_link_attributes = 1000\<rparr>] \<and>
            map tp_span_limits
              [p. Call_set_tracer_provider p \<leftarrow> new_calls w (snd (init raises service_name w))] =
              [\<lparr>max_attributes = 100000, max_attribute_length = 100000,
                max_events = 10000, max_links = 1000,
                max_event_attributes = 10000, max_link_attributes = 1000\<rparr>])"
proof (intro conjI allI impI)
  fix l
  assume "Call_SpanLimits l \<in> set (new_calls w (snd (init raises service_name w)))"
  then have "Call_SpanLimits l \<in> set (init_calls service_name endpoint)"
    by (rule in_new_calls [OF assms])
  then show "l = \<lparr>max_attributes = 100000, max_attribute_length = 100000,
                 max_events = 10000, max_links = 1000,
                 max_event_attributes = 10000, max_link_attributes = 1000\<rparr>"
    by (simp add: init_calls_def Let_def)
next
  fix p
  assume "Call_TracerProvider p \<in> set (new_calls w (snd (init raises service_name w))) \<or>
      Call_set_tracer_provider p \<in> set (new_calls w (snd (init raises service_name w)))"
  then have "Call_TracerProvider p \<in> set (init_calls service_name endpoint) \<or>
      Call_set_tracer_provider p \<in> set (init_calls service_name endpoint)"
    using in_new_calls [OF assms] by blast
  then show "tp_span_limits p =
               \<lparr>max_attributes = 100000, max_attribute_length = 100000,
                max_events = 10000, max_links = 1000,
                max_event_attributes = 10000, max_link_attributes = 1000\<rparr>"
    by (auto simp: init_calls_def Let_def)
next
  assume "fst (init raises service_name w) = None"
  then have *: "new_calls w (snd (init raises service_name w)) = init_calls service_name endpoint"
    by (rule init_returns_calls [OF assms])
  show "[l. Call_SpanLimits l \<leftarrow> new_calls w (snd (init raises service_name w))] =
              [\<lparr>max_attributes = 100000, max_attribute_length = 100000,
                max_events = 10000, max_links = 1000,
                max_event_attributes = 10000, max_link_attributes = 1000\<rparr>]"
    unfolding * by (simp add: init_calls_def Let_def)
  show "map tp_span_limits
              [p. Call_set_tracer_provider p \<leftarrow> new_calls w (snd (init raises service_name w))] =
              [\<lparr>max_attributes = 100000, max_attribute_length = 100000,
                max_events = 10000, max_links = 1000,
                max_event_attributes = 10000, max_link_attributes = 1000\<rparr>]"
    unfolding * by (simp add: init_calls_def Let_def)
qed

theorem span_limits_fixed_witness:
  "map tp_span_limits
     [p. Call_set_tracer_provider p \<leftarrow>
        new_calls \<lparr>initialized = False,
           environ = [''OTEL_EXPORTER_OTLP_ENDPOINT'' \<mapsto> ''http://collector:4318''],
           calls = []\<rparr>
          (snd (init (\<lambda>c. False) ''svc'' \<lparr>initialized = False,
           environ = [''OTEL_EXPORTER_OTLP_ENDPOINT'' \<mapsto> ''http://collector:4318''],
           calls = []\<rparr>))] =
   [\<lparr>max_attributes = 100000, max_attribute_length = 100000,
     max_events = 10000, max_links = 1000,
     max_event_attributes = 10000, max_link_attributes = 1000\<rparr>]"
proof -
  let ?w = "\<lparr>initialized = False,
         environ = [''OTEL_EXPORTER_OTLP_ENDPOINT'' \<mapsto> ''http://collector:4318''],
         calls = []\<rparr>"
  have ret: "fst (init (\<lambda>c. False) ''svc'' ?w) = None"
    by (simp add: init_def call_all_ok)
  have "\<not> initialized ?w" "environ ?w ''OTEL_EXPORTER_OTLP_ENDPOINT'' = Some ''http://collector:4318''"
    "''http://collector:4318'' \<noteq> []"
    by simp_all
  from span_limits_fixed [OF this, of "\<lambda>c. False" "''svc''"] ret
  show ?thesis by simp
qed

subsection \<open>\<^verbatim>\<open>get_tracer\<close> delegates\<close>

text \<open>
  C6. \<^verbatim>\<open>get_tracer(name)\<close> returns what the library's registry lookup returns for
  exactly that name, and for \<^verbatim>\<open>"pondside"\<close> when the argument is omitted. It makes that
  one library call and no other, leaves the flag and the environment as they are, and its
  result does not depend on the flag.
\<close>

theorem get_tracer_delegates:
  "fst (get_tracer lookup (Some n) w) = lookup n \<and>
   fst (get_tracer lookup None w) = lookup ''pondside'' \<and>
   new_calls w (snd (get_tracer lookup (Some n) w)) = [Call_trace_get_tracer n] \<and>
   new_calls w (snd (get_tracer lookup None w)) = [Call_trace_get_tracer ''pondside''] \<and>
   initialized (snd (get_tracer lookup name w)) = initialized w \<and>
   environ (snd (get_tracer lookup name w)) = environ w \<and>
   fst (get_tracer lookup name (w\<lparr>initialized := b\<rparr>)) = fst (get_tracer lookup name w)"
  by (simp add: get_tracer_def Let_def new_calls_def)

subsection \<open>One resource for both providers\<close>

text \<open>
  C7, as stated, fails: that the descriptor built carries the service name, and which
  provider is registered, are decided by the library. Take a first call
  \<^verbatim>\<open>init("a")\<close> that raises in \<^verbatim>\<open>OTLPLogExporter\<close>, after it has passed its tracer
  provider to \<^verbatim>\<open>set_tracer_provider\<close>, and a second call \<^verbatim>\<open>init("b")\<close> that returns.
  The second call has the endpoint set and runs the whole configuration, yet the
  registered tracer provider is the one of the first call, whose resource was created for
  \<^verbatim>\<open>"a"\<close>, while the registered logger provider has the resource created for \<^verbatim>\<open>"b"\<close>:
  the two registered providers do not share a resource, and the tracer provider's is not
  the one of the service name given.
\<close>

theorem one_resource_counterexample:
  "init (\<lambda>c. c = Call_OTLPLogExporter (OTLPLogExporter ''http://collector:4318/v1/logs'')) ''a''
     \<lparr>initialized = False,
      environ = [''OTEL_EXPORTER_OTLP_ENDPOINT'' \<mapsto> ''http://collector:4318''],
      calls = []\<rparr> =
   (Some (Raised (Call_OTLPLogExporter (OTLPLogExporter ''http://collector:4318/v1/logs''))),
    \<lparr>initialized = False,
     environ = [''OTEL_EXPORTER_OTLP_ENDPOINT'' \<mapsto> ''http://collector:4318''],
     calls = take 8 (init_calls ''a'' ''http://collector:4318'')\<rparr>) \<and>
   init (\<lambda>c. False) ''b''
     \<lparr>initialized = False,
      environ = [''OTEL_EXPORTER_OTLP_ENDPOINT'' \<mapsto> ''http://collector:4318''],
      calls = take 8 (init_calls ''a'' ''http://collector:4318'')\<rparr> =
   (None,
    \<lparr>initialized = True,
     environ = [''OTEL_EXPORTER_OTLP_ENDPOINT'' \<mapsto> ''http://collector:4318''],
     calls = take 8 (init_calls ''a'' ''http://collector:4318'') @
             init_calls ''b'' ''http://collector:4318''\<rparr>) \<and>
   map_option tp_resource
     (registered_tracer_provider
        (take 8 (init_calls ''a'' ''http://collector:4318'') @
         init_calls ''b'' ''http://collector:4318'')) =
     Some (Resource_create [(SERVICE_NAME, ''a'')]) \<and>
   map_option lp_resource
     (registered_logger_provider
        (take 8 (init_calls ''a'' ''http://collector:4318'') @
         init_calls ''b'' ''http://collector:4318'')) =
     Some (Resource_create [(SERVICE_NAME, ''b'')]) \<and>
   Resource_create [(SERVICE_NAME, ''a'')] \<noteq> Resource_create [(SERVICE_NAME, ''b'')]"
  by (simp add: init_def init_calls_def Let_def)

text \<open>
  C7, amended to what \<^verbatim>\<open>init\<close> passes and calls. A first call to \<^verbatim>\<open>init\<close> that reads
  a non-empty endpoint and returns has called \<^verbatim>\<open>Resource.create\<close> exactly once, with the
  dictionary that maps \<^verbatim>\<open>SERVICE_NAME\<close> to the service name it was given. It has
  constructed exactly one tracer provider and exactly one logger provider, both with the
  object that call returned as their resource, and has passed exactly these two providers
  to \<^verbatim>\<open>set_tracer_provider\<close> and \<^verbatim>\<open>set_logger_provider\<close>, once each. Which attributes
  the descriptor then carries, and whether the registries accept the providers, is left
  to the library.
\<close>

theorem one_resource:
  assumes "\<not> initialized w"
    and "environ w ''OTEL_EXPORTER_OTLP_ENDPOINT'' = Some endpoint"
    and "endpoint \<noteq> []"
    and "fst (init raises service_name w) = None"
  shows "[r. Call_Resource_create r \<leftarrow> new_calls w (snd (init raises service_name w))] =
           [Resource_create [(SERVICE_NAME, service_name)]] \<and>
         map tp_resource
           [p. Call_TracerProvider p \<leftarrow> new_calls w (snd (init raises service_name w))] =
           [Resource_create [(SERVICE_NAME, service_name)]] \<and>
         map tp_resource
           [p. Call_set_tracer_provider p \<leftarrow> new_calls w (snd (init raises service_name w))] =
           [Resource_create [(SERVICE_NAME, service_name)]] \<and>
         map lp_resource
           [p. Call_LoggerProvider p \<leftarrow> new_calls w (snd (init raises service_name w))] =
           [Resource_create [(SERVICE_NAME, service_name)]] \<and>
         map lp_resource
           [p. Call_set_logger_provider p \<leftarrow> new_calls w (snd (init raises service_name w))] =
           [Resource_create [(SERVICE_NAME, service_name)]] \<and>
         [p. Call_set_tracer_provider p \<leftarrow> new_calls w (snd (init raises service_name w))] =
           [p. Call_TracerProvider p \<leftarrow> new_calls w (snd (init raises service_name w))] \<and>
         [p. Call_set_logger_provider p \<leftarrow> new_calls w (snd (init raises service_name w))] =
           [p. Call_LoggerProvider p \<leftarrow> new_calls w (snd (init raises service_name w))]"
proof -
  have *: "new_calls w (snd (init raises service_name w)) = init_calls service_name endpoint"
    using assms by (rule init_returns_calls)
  show ?thesis
    unfolding * by (simp add: init_calls_def Let_def)
qed

theorem one_resource_witness:
  "[r. Call_Resource_create r \<leftarrow>
      new_calls \<lparr>initialized = False,
         environ = [''OTEL_EXPORTER_OTLP_ENDPOINT'' \<mapsto> ''http://collector:4318''],
         calls = []\<rparr>
        (snd (init (\<lambda>c. False) ''svc'' \<lparr>initialized = False,
         environ = [''OTEL_EXPORTER_OTLP_ENDPOINT'' \<mapsto> ''http://collector:4318''],
         calls = []\<rparr>))] = [Resource_create [(SERVICE_NAME, ''svc'')]]"
proof -
  let ?w = "\<lparr>initialized = False,
         environ = [''OTEL_EXPORTER_OTLP_ENDPOINT'' \<mapsto> ''http://collector:4318''],
         calls = []\<rparr>"
  have "\<not> initialized ?w" "environ ?w ''OTEL_EXPORTER_OTLP_ENDPOINT'' = Some ''http://collector:4318''"
    "''http://collector:4318'' \<noteq> []" "fst (init (\<lambda>c. False) ''svc'' ?w) = None"
    by (simp_all add: init_def call_all_ok)
  from one_resource [OF this]
  show ?thesis by simp
qed

subsection \<open>The logging bridge\<close>




subsection \<open>An empty endpoint\<close>

text \<open>
  C9. An endpoint variable that is present but empty disables telemetry as an absent one
  does: \<^verbatim>\<open>init\<close> returns without an exception, sets the flag and makes no library
  call, and its outcome is the outcome of the same call with the variable removed from
  the environment (the environment itself apart, which \<^verbatim>\<open>init\<close> never changes).
\<close>

theorem init_endpoint_empty:
  assumes "environ w ''OTEL_EXPORTER_OTLP_ENDPOINT'' = Some []"
  shows "init raises service_name w = (None, w\<lparr>initialized := True\<rparr>) \<and>
         new_calls w (snd (init raises service_name w)) = [] \<and>
         init raises service_name w =
           (case init raises service_name
                   (w\<lparr>environ := (environ w)(''OTEL_EXPORTER_OTLP_ENDPOINT'' := None)\<rparr>) of
              (r, w') \<Rightarrow> (r, w'\<lparr>environ := environ w\<rparr>))"
proof -
  let ?v = "w\<lparr>environ := (environ w)(''OTEL_EXPORTER_OTLP_ENDPOINT'' := None)\<rparr>"
  have 1: "init raises service_name w = (None, w\<lparr>initialized := True\<rparr>)"
    using assms by (simp add: init_disabled)
  have "environ ?v ''OTEL_EXPORTER_OTLP_ENDPOINT'' = None"
    by simp
  then have 2: "init raises service_name ?v = (None, ?v\<lparr>initialized := True\<rparr>)"
    by (simp add: init_disabled)
  show ?thesis
    unfolding 2 unfolding 1 by (simp add: new_calls_def)
qed

theorem init_endpoint_empty_witness:
  "init (\<lambda>c. True) ''svc''
     \<lparr>initialized = False, environ = [''OTEL_EXPORTER_OTLP_ENDPOINT'' \<mapsto> []],
      calls = []\<rparr> =
   (None, \<lparr>initialized = True, environ = [''OTEL_EXPORTER_OTLP_ENDPOINT'' \<mapsto> []],
      calls = []\<rparr>)"
  using init_endpoint_empty
    [of "\<lparr>initialized = False, environ = [''OTEL_EXPORTER_OTLP_ENDPOINT'' \<mapsto> []],
      calls = []\<rparr>" "\<lambda>c. True" "''svc''"]
  by simp


subsection \<open>The flag is set last\<close>

text \<open>
  C10. On the configured path \<^verbatim>\<open>init\<close> returns exactly when none of its library calls
  raises, the flag is set afterwards exactly when it returned, and then all the calls of
  the configuration have been made. When a call raises, the flag is still false; a later
  call to \<^verbatim>\<open>init\<close> is then not a no-op: it starts the configuration again, and carries
  all of it out and sets the flag when no library call raises that time.
\<close>

theorem flag_set_last:
  assumes "\<not> initialized w"
    and "environ w ''OTEL_EXPORTER_OTLP_ENDPOINT'' = Some endpoint"
    and "endpoint \<noteq> []"
  shows "(fst (init raises service_name w) = None \<longleftrightarrow>
            (\<forall>c \<in> set (init_calls service_name endpoint). \<not> raises c)) \<and>
         (initialized (snd (init raises service_name w)) \<longleftrightarrow>
            fst (init raises service_name w) = None) \<and>
         (fst (init raises service_name w) = None \<longrightarrow>
            new_calls w (snd (init raises service_name w)) = init_calls service_name endpoint) \<and>
         (fst (init raises service_name w) \<noteq> None \<and>
          (\<forall>c \<in> set (init_calls service_name' endpoint). \<not> raises' c) \<longrightarrow>
            init raises' service_name' (snd (init raises service_name w)) =
              (None, (snd (init raises service_name w))
                 \<lparr>calls := calls (snd (init raises service_name w)) @
                            init_calls service_name' endpoint,
                  initialized := True\<rparr>)) \<and>
         (fst (init raises service_name w) \<noteq> None \<longrightarrow>
            new_calls (snd (init raises service_name w))
              (snd (init raises'' service_name'' (snd (init raises service_name w)))) \<noteq> [])"
proof -
  let ?r = "call_all raises (init_calls service_name endpoint) w"
  have unfold: "init raises service_name w =
      (case ?r of (Some e, w') \<Rightarrow> (Some e, w') | (None, w') \<Rightarrow> (None, w'\<lparr>initialized := True\<rparr>))"
    using assms by (rule init_configured)
  have fst_eq: "fst (init raises service_name w) = fst ?r"
    unfolding unfold by (auto split: prod.splits option.splits)
  have 1: "fst (init raises service_name w) = None \<longleftrightarrow>
      (\<forall>c \<in> set (init_calls service_name endpoint). \<not> raises c)"
  proof
    assume "fst (init raises service_name w) = None"
    then have "fst ?r = None" by (simp add: fst_eq)
    then show "\<forall>c \<in> set (init_calls service_name endpoint). \<not> raises c"
      by (rule call_all_None)
  next
    assume "\<forall>c \<in> set (init_calls service_name endpoint). \<not> raises c"
    then show "fst (init raises service_name w) = None"
      by (simp add: init_configured_ok [OF assms])
  qed
  have raised: "\<not> initialized (snd (init raises service_name w)) \<and>
      environ (snd (init raises service_name w)) = environ w"
    if "fst (init raises service_name w) \<noteq> None"
  proof -
    from that obtain e w' where r: "?r = (Some e, w')"
      unfolding fst_eq by (cases ?r) auto
    then have "snd (init raises service_name w) = snd ?r"
      unfolding unfold by simp
    then show ?thesis
      using assms(1) by (simp add: call_all_initialized call_all_environ)
  qed
  have 2: "initialized (snd (init raises service_name w)) \<longleftrightarrow>
      fst (init raises service_name w) = None"
  proof
    assume "initialized (snd (init raises service_name w))"
    then show "fst (init raises service_name w) = None"
      using raised by blast
  next
    assume "fst (init raises service_name w) = None"
    then obtain w' where "init raises service_name w = (None, w')"
      by (cases "init raises service_name w") simp
    then show "initialized (snd (init raises service_name w))"
      using init_returns_initialized by fastforce
  qed
  have 3: "new_calls w (snd (init raises service_name w)) = init_calls service_name endpoint"
    if "fst (init raises service_name w) = None"
    using that by (rule init_returns_calls [OF assms])
  have 4: "init raises' service_name' (snd (init raises service_name w)) =
      (None, (snd (init raises service_name w))
         \<lparr>calls := calls (snd (init raises service_name w)) @ init_calls service_name' endpoint,
          initialized := True\<rparr>)"
    if "fst (init raises service_name w) \<noteq> None"
      and ok: "\<forall>c \<in> set (init_calls service_name' endpoint). \<not> raises' c"
  proof -
    from raised [OF that(1)] assms(2)
    have "\<not> initialized (snd (init raises service_name w))"
      "environ (snd (init raises service_name w)) ''OTEL_EXPORTER_OTLP_ENDPOINT'' = Some endpoint"
      by simp_all
    from init_configured_ok [OF this assms(3) ok] show ?thesis .
  qed
  have 5: "new_calls (snd (init raises service_name w))
      (snd (init raises'' service_name'' (snd (init raises service_name w)))) \<noteq> []"
    if "fst (init raises service_name w) \<noteq> None"
  proof -
    from raised [OF that] assms(2)
    have "\<not> initialized (snd (init raises service_name w))"
      "environ (snd (init raises service_name w)) ''OTEL_EXPORTER_OTLP_ENDPOINT'' = Some endpoint"
      by simp_all
    from init_configured_not_noop [OF this assms(3)] show ?thesis .
  qed
  from 1 2 3 4 5 show ?thesis by blast
qed

theorem flag_set_last_witness:
  "init (\<lambda>c. c = Call_getLogger (getLogger None)) ''svc''
     \<lparr>initialized = False,
      environ = [''OTEL_EXPORTER_OTLP_ENDPOINT'' \<mapsto> ''http://collector:4318''],
      calls = []\<rparr> =
   (Some (Raised (Call_getLogger (getLogger None))),
    \<lparr>initialized = False,
     environ = [''OTEL_EXPORTER_OTLP_ENDPOINT'' \<mapsto> ''http://collector:4318''],
     calls = take 14 (init_calls ''svc'' ''http://collector:4318'')\<rparr>) \<and>
   init (\<lambda>c. False) ''svc''
     \<lparr>initialized = False,
      environ = [''OTEL_EXPORTER_OTLP_ENDPOINT'' \<mapsto> ''http://collector:4318''],
      calls = take 14 (init_calls ''svc'' ''http://collector:4318'')\<rparr> =
   (None,
    \<lparr>initialized = True,
     environ = [''OTEL_EXPORTER_OTLP_ENDPOINT'' \<mapsto> ''http://collector:4318''],
     calls = take 14 (init_calls ''svc'' ''http://collector:4318'') @
             init_calls ''svc'' ''http://collector:4318''\<rparr>)"
proof -
  let ?w = "\<lparr>initialized = False,
      environ = [''OTEL_EXPORTER_OTLP_ENDPOINT'' \<mapsto> ''http://collector:4318''],
      calls = []\<rparr>"
  have first: "init (\<lambda>c. c = Call_getLogger (getLogger None)) ''svc'' ?w =
     (Some (Raised (Call_getLogger (getLogger None))),
      \<lparr>initialized = False,
       environ = [''OTEL_EXPORTER_OTLP_ENDPOINT'' \<mapsto> ''http://collector:4318''],
       calls = take 14 (init_calls ''svc'' ''http://collector:4318'')\<rparr>)"
    by (simp add: init_def init_calls_def Let_def)
  have "\<not> initialized ?w"
    "environ ?w ''OTEL_EXPORTER_OTLP_ENDPOINT'' = Some ''http://collector:4318''"
    "''http://collector:4318'' \<noteq> []"
    by simp_all
  from flag_set_last [OF this, of "\<lambda>c. c = Call_getLogger (getLogger None)" "''svc''" "''svc''" "\<lambda>c. False"] first
  show ?thesis by simp
qed

end
